theory Spec2Isabelle
  imports Complex_Main "HOL-Library.Word"
begin

section \<open>C++ doubles\<close>

text \<open>
  The simulation driver computes with C++ \<open>double\<close>. A double is carried here as one of
  the four kinds of IEEE 754 value the program can tell apart: a finite number, the two
  infinities and NaN. Finite results are exact reals: rounding to 53 bits, overflow of a
  finite result to an infinity and the sign of a zero are not part of this model (a zero
  divisor counts as +0, which is what a difference of two equal finite doubles is).
  What the model keeps is what IEEE arithmetic does where real arithmetic has no answer:
  a division by zero does not trap, it yields an infinity or NaN, and these values
  propagate through later operations and comparisons.
\<close>

datatype double = Finite real | PInf | NInf | NaN

fun is_finite :: "double \<Rightarrow> bool" where
  "is_finite (Finite _) = True"
| "is_finite _ = False"

fun dadd :: "double \<Rightarrow> double \<Rightarrow> double" where
  "dadd (Finite a) (Finite b) = Finite (a + b)"
| "dadd NaN _ = NaN"
| "dadd _ NaN = NaN"
| "dadd PInf NInf = NaN"
| "dadd NInf PInf = NaN"
| "dadd PInf _ = PInf"
| "dadd _ PInf = PInf"
| "dadd NInf _ = NInf"
| "dadd _ NInf = NInf"

fun dsub :: "double \<Rightarrow> double \<Rightarrow> double" where
  "dsub (Finite a) (Finite b) = Finite (a - b)"
| "dsub NaN _ = NaN"
| "dsub _ NaN = NaN"
| "dsub PInf PInf = NaN"
| "dsub NInf NInf = NaN"
| "dsub PInf _ = PInf"
| "dsub _ PInf = NInf"
| "dsub NInf _ = NInf"
| "dsub _ NInf = PInf"

fun dmul :: "double \<Rightarrow> double \<Rightarrow> double" where
  "dmul (Finite a) (Finite b) = Finite (a * b)"
| "dmul NaN _ = NaN"
| "dmul _ NaN = NaN"
| "dmul PInf PInf = PInf"
| "dmul PInf NInf = NInf"
| "dmul NInf PInf = NInf"
| "dmul NInf NInf = PInf"
| "dmul PInf (Finite b) = (if b = 0 then NaN else if 0 < b then PInf else NInf)"
| "dmul (Finite a) PInf = (if a = 0 then NaN else if 0 < a then PInf else NInf)"
| "dmul NInf (Finite b) = (if b = 0 then NaN else if 0 < b then NInf else PInf)"
| "dmul (Finite a) NInf = (if a = 0 then NaN else if 0 < a then NInf else PInf)"

text \<open>
  Division is where HOL and the program part ways: in HOL \<open>a / 0 = 0\<close>, in IEEE
  arithmetic a non-zero number over zero is an infinity and \<open>0 / 0\<close> is NaN.
\<close>

fun ddiv :: "double \<Rightarrow> double \<Rightarrow> double" where
  "ddiv (Finite a) (Finite b) =
     (if b \<noteq> 0 then Finite (a / b)
      else if a = 0 then NaN
      else if 0 < a then PInf else NInf)"
| "ddiv NaN _ = NaN"
| "ddiv _ NaN = NaN"
| "ddiv PInf PInf = NaN"
| "ddiv PInf NInf = NaN"
| "ddiv NInf PInf = NaN"
| "ddiv NInf NInf = NaN"
| "ddiv PInf (Finite b) = (if b < 0 then NInf else PInf)"
| "ddiv NInf (Finite b) = (if b < 0 then PInf else NInf)"
| "ddiv (Finite a) PInf = Finite 0"
| "ddiv (Finite a) NInf = Finite 0"

text \<open>Comparisons: every comparison with NaN is false.\<close>

fun dlt :: "double \<Rightarrow> double \<Rightarrow> bool" where
  "dlt (Finite a) (Finite b) = (a < b)"
| "dlt NaN _ = False"
| "dlt _ NaN = False"
| "dlt _ NInf = False"
| "dlt PInf _ = False"
| "dlt NInf _ = True"
| "dlt _ PInf = True"

fun dle :: "double \<Rightarrow> double \<Rightarrow> bool" where
  "dle (Finite a) (Finite b) = (a \<le> b)"
| "dle NaN _ = False"
| "dle _ NaN = False"
| "dle NInf _ = True"
| "dle _ PInf = True"
| "dle PInf _ = False"
| "dle _ NInf = False"

definition dgt :: "double \<Rightarrow> double \<Rightarrow> bool" where
  "dgt a b = dlt b a"

text \<open>\<open>pow(10, y)\<close> and \<open>log2(x)\<close> of \<open><cmath>\<close>, with their values at the special arguments.\<close>

fun pow10 :: "double \<Rightarrow> double" where
  "pow10 (Finite y) = Finite (10 powr y)"
| "pow10 PInf = PInf"
| "pow10 NInf = Finite 0"
| "pow10 NaN = NaN"

fun log2 :: "double \<Rightarrow> double" where
  "log2 (Finite x) = (if x < 0 then NaN else if x = 0 then NInf else Finite (log 2 x))"
| "log2 PInf = PInf"
| "log2 NInf = NaN"
| "log2 NaN = NaN"

text \<open>The conversions of the unsigned counters to double.\<close>

definition of_u64 :: "64 word \<Rightarrow> double" where
  "of_u64 w = Finite (real (unat w))"

definition of_u32 :: "32 word \<Rightarrow> double" where
  "of_u32 w = Finite (real (unat w))"

section \<open>Data\<close>

text \<open>
  Modelled from the spec: \<open>ns3::Time\<close> belongs to the simulator and is not in the
  sources. A time is carried as its value in seconds; \<open>GetSeconds\<close> hands it out as a
  double, which is always finite.
\<close>

type_synonym Time = real

definition GetSeconds :: "Time \<Rightarrow> double" where
  "GetSeconds t = Finite t"

text \<open>
  The fields of \<open>FlowMonitor::FlowStats\<close> that \<open>ThroughputMonitor\<close> reads:
  \<open>rxBytes\<close> is a \<open>uint64_t\<close>, \<open>rxPackets\<close> a \<open>uint32_t\<close>.
\<close>

record FlowStats =
  timeFirstTxPacket :: Time
  timeLastRxPacket :: Time
  delaySum :: Time
  rxBytes :: "64 word"
  rxPackets :: "32 word"

text \<open>The global variables of the program (lines 25--33).\<close>

record globals =
  gFrequency :: double
  gBandwidth :: double
  gDuplexMode :: string
  gTxPower :: double
  gOutputPath :: string
  gThroughput :: double
  gLatency :: double

definition initial_globals :: globals where
  "initial_globals =
     \<lparr> gFrequency = Finite 3500000000,
       gBandwidth = Finite 20000000,
       gDuplexMode = ''TDD'',
       gTxPower = Finite 20,
       gOutputPath = ''simulation_output.json'',
       gThroughput = Finite 0,
       gLatency = Finite 0 \<rparr>"

section \<open>ThroughputMonitor (lines 36--62)\<close>

text \<open>
  Line 48: the throughput of one flow,
  \<open>rxBytes * 8.0 / (timeLastRxPacket.GetSeconds() - timeFirstTxPacket.GetSeconds()) / 1000\<close>.
\<close>

definition flow_throughput :: "FlowStats \<Rightarrow> double" where
  "flow_throughput s =
     ddiv (ddiv (dmul (of_u64 (rxBytes s)) (Finite 8))
                (dsub (GetSeconds (timeLastRxPacket s)) (GetSeconds (timeFirstTxPacket s))))
          (Finite 1000)"

text \<open>Line 53: the latency of one flow, \<open>delaySum.GetSeconds() / rxPackets\<close>.\<close>

definition flow_latency :: "FlowStats \<Rightarrow> double" where
  "flow_latency s = ddiv (GetSeconds (delaySum s)) (of_u32 (rxPackets s))"

text \<open>
  The body of the loop (lines 46--57), on the pair of the local \<open>totalThroughput\<close> and
  the global \<open>gLatency\<close>. The test of \<open>rxPackets\<close> is nested in the test of \<open>rxBytes\<close>.
\<close>

definition flow_body :: "FlowStats \<Rightarrow> double \<times> double \<Rightarrow> double \<times> double" where
  "flow_body s acc =
     (case acc of (totalThroughput, lat) \<Rightarrow>
        if 0 < rxBytes s then
          (let totalThroughput' = dadd totalThroughput (flow_throughput s) in
           if 0 < rxPackets s then
             (totalThroughput', ddiv (dadd lat (flow_latency s)) (Finite 2))
           else (totalThroughput', lat))
        else (totalThroughput, lat))"

text \<open>The loop over the flow table, in the iteration order of the \<open>std::map\<close>.\<close>

fun flow_loop :: "FlowStats list \<Rightarrow> double \<times> double \<Rightarrow> double \<times> double" where
  "flow_loop [] acc = acc"
| "flow_loop (s # ss) acc = flow_loop ss (flow_body s acc)"

definition ThroughputMonitor :: "FlowStats list \<Rightarrow> globals \<Rightarrow> globals" where
  "ThroughputMonitor stats g =
     (case flow_loop stats (Finite 0, gLatency g) of
        (totalThroughput, lat) \<Rightarrow>
          g\<lparr>gThroughput := dmul totalThroughput (Finite 1000), gLatency := lat\<rparr>)"

section \<open>The fallback calculation of main (lines 209--220)\<close>

definition main_fallback :: "globals \<Rightarrow> globals" where
  "main_fallback g =
     (if dle (gThroughput g) (Finite 0) then
        (let snr = dadd (Finite 10) (ddiv (dsub (gTxPower g) (Finite 20)) (Finite 2));
             spectralEfficiency = log2 (dadd (Finite 1) (pow10 (ddiv snr (Finite 10))));
             duplexEfficiency = (if gDuplexMode g = ''TDD'' then Finite (8 / 10) else Finite (95 / 100));
             mimoFactor = (if dlt (gFrequency g) (Finite 6000000000) then Finite 4 else Finite 8);
             overheadFactor = Finite (85 / 100)
         in g\<lparr>gThroughput :=
                 dmul (dmul (dmul (dmul (gBandwidth g) spectralEfficiency) duplexEfficiency)
                            mimoFactor) overheadFactor,
               gLatency :=
                 dadd (dadd (Finite (1 / 1000))
                            (if gDuplexMode g = ''TDD'' then Finite (5 / 10000) else Finite 0))
                      (dmul (ddiv (Finite 100000000) (gBandwidth g)) (Finite (5 / 10000)))\<rparr>)
      else g)"

section \<open>The throughput formula in the words of the specification\<close>

text \<open>
  The elapsed time of a flow, and the aggregate throughput as the specification words it:
  1000 times the sum, over the records with \<open>rxBytes > 0\<close> and a positive elapsed time,
  of \<open>rxBytes * 8 / \<Delta>t / 1000\<close>. These two follow the specification, not the source;
  they are compared with \<open>ThroughputMonitor\<close> below.
\<close>

definition elapsed :: "FlowStats \<Rightarrow> real" where
  "elapsed s = timeLastRxPacket s - timeFirstTxPacket s"

definition spec_throughput :: "FlowStats list \<Rightarrow> real" where
  "spec_throughput stats =
     1000 * (\<Sum>s \<leftarrow> filter (\<lambda>s. 0 < rxBytes s \<and> 0 < elapsed s) stats.
               real (unat (rxBytes s)) * 8 / elapsed s / 1000)"

section \<open>Sample flows\<close>

text \<open>One flow of 150000 bytes in 100 packets, sent from second 0 and received up to second 1.\<close>

definition single_flow :: FlowStats where
  "single_flow =
     \<lparr> timeFirstTxPacket = 0, timeLastRxPacket = 1, delaySum = 1 / 2,
       rxBytes = 150000, rxPackets = 100 \<rparr>"

text \<open>Two flows with mean packet delays of 2 ms and 4 ms.\<close>

definition flow_a :: FlowStats where
  "flow_a =
     \<lparr> timeFirstTxPacket = 1 / 2, timeLastRxPacket = 3 / 2, delaySum = 1 / 5,
       rxBytes = 150000, rxPackets = 100 \<rparr>"

definition flow_b :: FlowStats where
  "flow_b =
     \<lparr> timeFirstTxPacket = 1 / 2, timeLastRxPacket = 1, delaySum = 1 / 5,
       rxBytes = 75000, rxPackets = 50 \<rparr>"

text \<open>A flow whose only packet is received at the instant it is sent.\<close>

definition instant_flow :: FlowStats where
  "instant_flow =
     \<lparr> timeFirstTxPacket = 1, timeLastRxPacket = 1, delaySum = 0,
       rxBytes = 1500, rxPackets = 1 \<rparr>"

definition stalled_flow :: FlowStats where
  "stalled_flow =
     \<lparr> timeFirstTxPacket = 1 / 2, timeLastRxPacket = 1 / 2, delaySum = 0,
       rxBytes = 3000, rxPackets = 2 \<rparr>"

text \<open>A record whose last reception is stamped before its first transmission.\<close>

definition reversed_flow :: FlowStats where
  "reversed_flow =
     \<lparr> timeFirstTxPacket = 2, timeLastRxPacket = 1, delaySum = 0,
       rxBytes = 1500, rxPackets = 1 \<rparr>"

text \<open>Records with no received bytes: one that counts three packets, one that counts none.\<close>

definition silent_flow :: FlowStats where
  "silent_flow =
     \<lparr> timeFirstTxPacket = 1 / 2, timeLastRxPacket = 0, delaySum = 3 / 100,
       rxBytes = 0, rxPackets = 3 \<rparr>"

definition empty_flow :: FlowStats where
  "empty_flow =
     \<lparr> timeFirstTxPacket = 1 / 2, timeLastRxPacket = 0, delaySum = 0,
       rxBytes = 0, rxPackets = 0 \<rparr>"

text \<open>A flow with received bytes and a packet count of zero.\<close>

definition uncounted_flow :: FlowStats where
  "uncounted_flow =
     \<lparr> timeFirstTxPacket = 0, timeLastRxPacket = 1, delaySum = 1 / 100,
       rxBytes = 1500, rxPackets = 0 \<rparr>"

text \<open>A flow with received bytes, no elapsed time and a packet count of zero.\<close>

definition frozen_flow :: FlowStats where
  "frozen_flow =
     \<lparr> timeFirstTxPacket = 1 / 2, timeLastRxPacket = 1 / 2, delaySum = 0,
       rxBytes = 1500, rxPackets = 0 \<rparr>"

text \<open>A millimetre-wave FDD configuration at 30 dBm, with no throughput measured yet.\<close>

definition mmwave_globals :: globals where
  "mmwave_globals =
     initial_globals\<lparr>gFrequency := Finite 28000000000, gDuplexMode := ''FDD'',
                     gTxPower := Finite 30\<rparr>"

section \<open>Facts about the counters and the loop\<close>

lemma unat_pos: "0 < w \<Longrightarrow> 0 < unat w"
  by (simp add: word_less_nat_alt)

lemma real_unat_pos: "0 < w \<Longrightarrow> 0 < real (unat w)"
  using unat_pos [of w] by (simp only: of_nat_0_less_iff)

lemma flow_throughput_finite:
  "elapsed s \<noteq> 0 \<Longrightarrow>
   flow_throughput s = Finite (real (unat (rxBytes s)) * 8 / elapsed s / 1000)"
  by (simp add: flow_throughput_def of_u64_def GetSeconds_def elapsed_def)

lemma flow_throughput_zero_elapsed:
  "0 < rxBytes s \<Longrightarrow> elapsed s = 0 \<Longrightarrow> flow_throughput s = PInf"
  using real_unat_pos [of "rxBytes s"]
  by (simp add: flow_throughput_def of_u64_def GetSeconds_def elapsed_def del: of_nat_unat)

lemma flow_latency_guarded:
  "0 < rxPackets s \<Longrightarrow> flow_latency s = Finite (delaySum s / real (unat (rxPackets s)))"
  using real_unat_pos [of "rxPackets s"]
  by (simp add: flow_latency_def of_u32_def GetSeconds_def del: of_nat_unat)

lemma fst_flow_body:
  "fst (flow_body s (tot, lat)) = (if 0 < rxBytes s then dadd tot (flow_throughput s) else tot)"
  by (simp add: flow_body_def Let_def)

lemma snd_flow_body:
  "snd (flow_body s (tot, lat)) =
     (if 0 < rxBytes s \<and> 0 < rxPackets s
      then ddiv (dadd lat (flow_latency s)) (Finite 2) else lat)"
  by (simp add: flow_body_def Let_def)

lemma flow_body_pair:
  "flow_body s (tot, lat) =
     (if 0 < rxBytes s then dadd tot (flow_throughput s) else tot,
      if 0 < rxBytes s \<and> 0 < rxPackets s
      then ddiv (dadd lat (flow_latency s)) (Finite 2) else lat)"
  by (simp add: flow_body_def Let_def)

lemma gThroughput_ThroughputMonitor:
  "gThroughput (ThroughputMonitor stats g) =
     dmul (fst (flow_loop stats (Finite 0, gLatency g))) (Finite 1000)"
  by (simp add: ThroughputMonitor_def split: prod.split)

lemma gLatency_ThroughputMonitor:
  "gLatency (ThroughputMonitor stats g) = snd (flow_loop stats (Finite 0, gLatency g))"
  by (simp add: ThroughputMonitor_def split: prod.split)

lemma flow_loop_no_rx:
  "\<forall>s\<in>set stats. \<not> 0 < rxBytes s \<Longrightarrow> flow_loop stats acc = acc"
  by (induction stats arbitrary: acc) (auto simp: flow_body_def)

lemma fst_flow_loop_foldl:
  "fst (flow_loop stats (tot, lat)) =
     foldl dadd tot (map flow_throughput (filter (\<lambda>s. 0 < rxBytes s) stats))"
  by (induction stats arbitrary: tot lat) (simp_all add: flow_body_pair)

lemma snd_flow_loop_foldl:
  "snd (flow_loop stats (tot, lat)) =
     foldl (\<lambda>l s. ddiv (dadd l (flow_latency s)) (Finite 2)) lat
       (filter (\<lambda>s. 0 < rxBytes s \<and> 0 < rxPackets s) stats)"
  by (induction stats arbitrary: tot lat) (simp_all add: flow_body_pair)

text \<open>
  With a positive elapsed time on every flow that received bytes, the running total stays
  finite and is the real sum.
\<close>

lemma fst_flow_loop_sum:
  "\<forall>s\<in>set stats. 0 < rxBytes s \<longrightarrow> 0 < elapsed s \<Longrightarrow>
   fst (flow_loop stats (Finite t, lat)) =
     Finite (t + (\<Sum>s \<leftarrow> filter (\<lambda>s. 0 < rxBytes s \<and> 0 < elapsed s) stats.
               real (unat (rxBytes s)) * 8 / elapsed s / 1000))"
proof (induction stats arbitrary: t lat)
  case Nil
  then show ?case by simp
next
  case (Cons s ss)
  from Cons.prems have rest: "\<forall>s\<in>set ss. 0 < rxBytes s \<longrightarrow> 0 < elapsed s"
    by simp
  show ?case
  proof (cases "0 < rxBytes s")
    case True
    with Cons.prems have pos: "0 < elapsed s"
      by simp
    then have ft: "flow_throughput s = Finite (real (unat (rxBytes s)) * 8 / elapsed s / 1000)"
      by (simp add: flow_throughput_finite)
    show ?thesis
      using True pos Cons.IH [OF rest] by (simp add: flow_body_pair ft add.assoc)
  next
    case False
    then show ?thesis
      using Cons.IH [OF rest] by (simp add: flow_body_pair)
  qed
qed

text \<open>The latency stays finite through the loop: its division never meets a zero divisor.\<close>

lemma snd_flow_body_finite:
  "is_finite lat \<Longrightarrow> is_finite (snd (flow_body s (tot, lat)))"
  by (cases lat) (simp_all add: snd_flow_body flow_latency_guarded)

lemma snd_flow_loop_finite:
  "is_finite (snd acc) \<Longrightarrow> is_finite (snd (flow_loop stats acc))"
proof (induction stats arbitrary: acc)
  case Nil
  then show ?case by simp
next
  case (Cons s ss)
  obtain tot lat where acc: "acc = (tot, lat)"
    by (cases acc)
  with Cons.prems have "is_finite (snd (flow_body s acc))"
    by (simp add: snd_flow_body_finite)
  then show ?case
    by (simp add: Cons.IH)
qed

section \<open>Facts about the fallback formula\<close>

lemma one_plus_powr_gt_one: "1 < 1 + (10::real) powr y"
  using powr_gt_zero [of 10 y] by linarith

lemma log2_one_plus_powr_pos: "0 < log 2 (1 + (10::real) powr y)"
  using one_plus_powr_gt_one [of y] by (simp only: zero_less_log_cancel_iff)

lemma spectral_efficiency_finite:
  "log2 (dadd (Finite 1) (pow10 (Finite y))) = Finite (log 2 (1 + 10 powr y))"
  using one_plus_powr_gt_one [of y] by (simp del: powr_gt_zero)

lemma snr_finite:
  "ddiv (dadd (Finite 10) (ddiv (dsub (Finite p) (Finite 20)) (Finite 2))) (Finite 10)
     = Finite ((10 + (p - 20) / 2) / 10)"
  by simp

lemma dmul_pos:
  "dlt (Finite 0) a \<Longrightarrow> 0 < b \<Longrightarrow> dlt (Finite 0) (dmul a (Finite b))"
  by (cases a) simp_all

text \<open>Rational bounds of a binary logarithm from a comparison of integer powers.\<close>

lemma log2_lower_bound:
  assumes "(2::real) ^ a < x ^ b" and "0 < x" and "0 < b"
  shows "real a / real b < log 2 x"
proof -
  have "real a < log 2 (x ^ b)"
    using assms by (simp add: less_log_iff powr_realpow)
  then have "real a < real b * log 2 x"
    using assms by (simp add: log_nat_power)
  then show ?thesis
    using assms by (simp add: field_simps)
qed

lemma log2_upper_bound:
  assumes "x ^ b < (2::real) ^ a" and "0 < x" and "0 < b"
  shows "log 2 x < real a / real b"
proof -
  have "log 2 (x ^ b) < real a"
    using assms by (simp add: log_less_iff powr_realpow)
  then have "real b * log 2 x < real a"
    using assms by (simp add: log_nat_power)
  then show ?thesis
    using assms by (simp add: field_simps)
qed

lemma log2_11_bounds: "83 / 24 < log 2 (11::real) \<and> log 2 (11::real) < 128 / 37"
proof -
  have "real 83 / real 24 < log 2 11"
    by (rule log2_lower_bound) simp_all
  moreover have "log 2 11 < real 128 / real 37"
    by (rule log2_upper_bound) simp_all
  ultimately show ?thesis
    by simp
qed

text \<open>
  In exact arithmetic the fallback throughput is positive whenever the bandwidth is positive
  and the transmit power is a finite number.
\<close>

lemma fallback_throughput_positive:
  assumes trig: "dle (gThroughput g) (Finite 0)"
    and bw: "dgt (gBandwidth g) (Finite 0)"
    and p: "gTxPower g = Finite p"
  shows "dgt (gThroughput (main_fallback g)) (Finite 0)"
proof -
  define e where "e = log 2 (1 + 10 powr ((10 + (p - 20) / 2) / 10))"
  have epos: "0 < e"
    unfolding e_def by (rule log2_one_plus_powr_pos)
  have se: "log2 (dadd (Finite 1) (pow10 (ddiv (dadd (Finite 10)
              (ddiv (dsub (Finite p) (Finite 20)) (Finite 2))) (Finite 10)))) = Finite e"
    unfolding snr_finite spectral_efficiency_finite e_def ..
  from bw have 0: "dlt (Finite 0) (gBandwidth g)"
    by (simp add: dgt_def)
  have 1: "dlt (Finite 0) (dmul (gBandwidth g) (Finite e))"
    using 0 epos by (rule dmul_pos)
  have 2: "dlt (Finite 0) (dmul (dmul (gBandwidth g) (Finite e))
             (Finite (if gDuplexMode g = ''TDD'' then 8 / 10 else 95 / 100)))"
    using 1 by (rule dmul_pos) simp
  have 3: "dlt (Finite 0) (dmul (dmul (dmul (gBandwidth g) (Finite e))
             (Finite (if gDuplexMode g = ''TDD'' then 8 / 10 else 95 / 100)))
             (Finite (if dlt (gFrequency g) (Finite 6000000000) then 4 else 8)))"
    using 2 by (rule dmul_pos) simp
  have 4: "dlt (Finite 0) (dmul (dmul (dmul (dmul (gBandwidth g) (Finite e))
             (Finite (if gDuplexMode g = ''TDD'' then 8 / 10 else 95 / 100)))
             (Finite (if dlt (gFrequency g) (Finite 6000000000) then 4 else 8)))
             (Finite (85 / 100)))"
    using 3 by (rule dmul_pos) simp
  have "gThroughput (main_fallback g) =
          dmul (dmul (dmul (dmul (gBandwidth g) (Finite e))
             (Finite (if gDuplexMode g = ''TDD'' then 8 / 10 else 95 / 100)))
             (Finite (if dlt (gFrequency g) (Finite 6000000000) then 4 else 8)))
             (Finite (85 / 100))"
    using trig se by (simp add: main_fallback_def Let_def p if_distrib [of Finite])
  with 4 show ?thesis
    by (simp add: dgt_def)
qed

section \<open>The claims about ThroughputMonitor\<close>

text \<open>
  C1, as amended. The throughput division has no guard on the elapsed time, and nothing is
  raised: a record with \<open>rxBytes > 0\<close> always adds its quotient \<open>rxBytes * 8 / \<Delta>t / 1000\<close>
  to the total. With \<open>\<Delta>t = 0\<close> the quotient is plus infinity, with \<open>\<Delta>t < 0\<close> it is a
  negative number. Only a record with \<open>rxBytes = 0\<close> is left out of the total.
\<close>

theorem throughput_division_unguarded:
  "(0 < rxBytes s \<longrightarrow> fst (flow_body s (tot, lat)) = dadd tot (flow_throughput s))
   \<and> (0 < rxBytes s \<and> timeLastRxPacket s - timeFirstTxPacket s = 0 \<longrightarrow>
        flow_throughput s = PInf)
   \<and> (0 < rxBytes s \<and> timeLastRxPacket s - timeFirstTxPacket s < 0 \<longrightarrow>
        flow_throughput s
          = Finite (real (unat (rxBytes s)) * 8 / (timeLastRxPacket s - timeFirstTxPacket s) / 1000)
        \<and> real (unat (rxBytes s)) * 8 / (timeLastRxPacket s - timeFirstTxPacket s) / 1000 < 0)
   \<and> (\<not> 0 < rxBytes s \<longrightarrow> fst (flow_body s (tot, lat)) = tot)"
proof -
  have neg: "real (unat (rxBytes s)) * 8 / (timeLastRxPacket s - timeFirstTxPacket s) / 1000 < 0"
    if "0 < rxBytes s" and "timeLastRxPacket s - timeFirstTxPacket s < 0"
  proof -
    from that(1) have "0 < real (unat (rxBytes s)) * 8"
      using real_unat_pos [of "rxBytes s"] by (simp del: of_nat_unat)
    with that(2) show ?thesis
      by (simp add: divide_pos_neg del: of_nat_unat)
  qed
  show ?thesis
    using flow_throughput_zero_elapsed [of s] flow_throughput_finite [of s] neg
    by (simp add: fst_flow_body elapsed_def del: of_nat_unat)
qed

theorem throughput_division_unguarded_witness:
  "0 < rxBytes instant_flow
   \<and> timeLastRxPacket instant_flow - timeFirstTxPacket instant_flow = 0
   \<and> flow_throughput instant_flow = PInf
   \<and> fst (flow_body instant_flow (Finite 1200, Finite 0)) = PInf
   \<and> 0 < rxBytes reversed_flow
   \<and> timeLastRxPacket reversed_flow - timeFirstTxPacket reversed_flow < 0
   \<and> flow_throughput reversed_flow = Finite (- 12)
   \<and> fst (flow_body reversed_flow (Finite 1200, Finite 0)) = Finite 1188
   \<and> \<not> 0 < rxBytes silent_flow
   \<and> fst (flow_body silent_flow (Finite 1200, Finite 0)) = Finite 1200"
proof -
  have i: "0 < rxBytes instant_flow"
    "timeLastRxPacket instant_flow - timeFirstTxPacket instant_flow = 0"
    by (simp_all add: instant_flow_def)
  have r: "0 < rxBytes reversed_flow"
    "timeLastRxPacket reversed_flow - timeFirstTxPacket reversed_flow < 0"
    by (simp_all add: reversed_flow_def)
  have rv: "real (unat (rxBytes reversed_flow)) * 8
              / (timeLastRxPacket reversed_flow - timeFirstTxPacket reversed_flow) / 1000 = - 12"
    by (simp add: reversed_flow_def)
  have s: "\<not> 0 < rxBytes silent_flow"
    by (simp add: silent_flow_def)
  from throughput_division_unguarded [of instant_flow "Finite 1200" "Finite 0"] i
  have 1: "flow_throughput instant_flow = PInf"
    "fst (flow_body instant_flow (Finite 1200, Finite 0)) = PInf"
    by simp_all
  from throughput_division_unguarded [of reversed_flow "Finite 1200" "Finite 0"] r rv
  have 2: "flow_throughput reversed_flow = Finite (- 12)"
    "fst (flow_body reversed_flow (Finite 1200, Finite 0)) = Finite 1188"
    by simp_all
  from throughput_division_unguarded [of silent_flow "Finite 1200" "Finite 0"] s
  have 3: "fst (flow_body silent_flow (Finite 1200, Finite 0)) = Finite 1200"
    by simp
  from i r s 1 2 3 show ?thesis
    by simp
qed

text \<open>
  C1 as the specification states it fails: a flow of 1500 bytes received at the instant it
  was sent does not contribute zero. Its quotient is plus infinity, and so is the reported
  throughput, where leaving the record out would report 0.
\<close>

theorem zero_elapsed_not_excluded:
  "0 < rxBytes instant_flow
   \<and> timeLastRxPacket instant_flow - timeFirstTxPacket instant_flow \<le> 0
   \<and> flow_throughput instant_flow = PInf
   \<and> gThroughput (ThroughputMonitor [instant_flow] initial_globals) = PInf
   \<and> gThroughput (ThroughputMonitor [instant_flow] initial_globals) \<noteq> Finite 0
   \<and> gThroughput (ThroughputMonitor [] initial_globals) = Finite 0"
  by (simp add: ThroughputMonitor_def flow_body_def flow_throughput_def flow_latency_def
      of_u64_def of_u32_def GetSeconds_def instant_flow_def initial_globals_def)

text \<open>
  C3, as amended. The reported throughput is 1000 times the sum of the quotients of all
  records with \<open>rxBytes > 0\<close>, whatever their elapsed time; when every such record has a
  positive elapsed time, this is the sum of the specification.
\<close>

theorem throughput_is_spec_sum:
  "gThroughput (ThroughputMonitor stats g)
     = dmul (foldl dadd (Finite 0) (map flow_throughput (filter (\<lambda>s. 0 < rxBytes s) stats)))
            (Finite 1000)
   \<and> ((\<forall>s\<in>set stats. 0 < rxBytes s \<longrightarrow> 0 < elapsed s) \<longrightarrow>
        gThroughput (ThroughputMonitor stats g) = Finite (spec_throughput stats))"
proof
  show "gThroughput (ThroughputMonitor stats g)
     = dmul (foldl dadd (Finite 0) (map flow_throughput (filter (\<lambda>s. 0 < rxBytes s) stats)))
            (Finite 1000)"
    by (simp add: gThroughput_ThroughputMonitor fst_flow_loop_foldl)
next
  show "(\<forall>s\<in>set stats. 0 < rxBytes s \<longrightarrow> 0 < elapsed s) \<longrightarrow>
        gThroughput (ThroughputMonitor stats g) = Finite (spec_throughput stats)"
    by (simp add: gThroughput_ThroughputMonitor fst_flow_loop_sum spec_throughput_def
        mult.commute)
qed

text \<open>The single flow of the specification: 150000 bytes in one second are 1,200,000 bps.\<close>

theorem throughput_is_spec_sum_witness:
  "0 < rxBytes single_flow \<and> 0 < elapsed single_flow
   \<and> spec_throughput [single_flow] = 1200000
   \<and> gThroughput (ThroughputMonitor [single_flow] initial_globals) = Finite 1200000"
proof -
  have h: "\<forall>s\<in>set [single_flow]. 0 < rxBytes s \<longrightarrow> 0 < elapsed s"
    by (simp add: single_flow_def elapsed_def)
  have v: "spec_throughput [single_flow] = 1200000"
    by (simp add: spec_throughput_def single_flow_def elapsed_def)
  have q: "0 < rxBytes single_flow" "0 < elapsed single_flow"
    by (simp_all add: single_flow_def elapsed_def)
  from throughput_is_spec_sum [of "[single_flow]" initial_globals] h
  have "gThroughput (ThroughputMonitor [single_flow] initial_globals)
          = Finite (spec_throughput [single_flow])"
    by blast
  with v q show ?thesis
    by simp
qed

text \<open>
  C3 as the specification states it fails: for a flow of 3000 bytes with no elapsed time the
  sum of the specification is 0, and the program reports plus infinity.
\<close>

theorem throughput_not_spec_sum:
  "gThroughput (ThroughputMonitor [stalled_flow] initial_globals) = PInf
   \<and> spec_throughput [stalled_flow] = 0
   \<and> gThroughput (ThroughputMonitor [stalled_flow] initial_globals)
       \<noteq> Finite (spec_throughput [stalled_flow])"
  by (simp add: ThroughputMonitor_def flow_body_def flow_throughput_def flow_latency_def
      of_u64_def of_u32_def GetSeconds_def stalled_flow_def initial_globals_def
      spec_throughput_def elapsed_def)

text \<open>
  C4. From a latency \<open>L0\<close>, one qualifying flow of latency \<open>x\<close> leaves \<open>(L0 + x) / 2\<close>; two
  qualifying flows of latencies \<open>x\<close> then \<open>y\<close> leave \<open>((L0 + x) / 2 + y) / 2\<close>; and the two
  orders give the same result exactly when \<open>x = y\<close>.
\<close>

theorem latency_recurrence:
  assumes "0 < rxBytes s1" and "0 < rxPackets s1" and "0 < rxBytes s2" and "0 < rxPackets s2"
    and "gLatency g = Finite L0"
    and "flow_latency s1 = Finite x" and "flow_latency s2 = Finite y"
  shows "gLatency (ThroughputMonitor [s1] g) = Finite ((L0 + x) / 2)
       \<and> gLatency (ThroughputMonitor [s1, s2] g) = Finite (((L0 + x) / 2 + y) / 2)
       \<and> gLatency (ThroughputMonitor [s2, s1] g) = Finite (((L0 + y) / 2 + x) / 2)
       \<and> (gLatency (ThroughputMonitor [s1, s2] g) = gLatency (ThroughputMonitor [s2, s1] g)
            \<longleftrightarrow> x = y)"
proof -
  have one: "gLatency (ThroughputMonitor [s1] g) = Finite ((L0 + x) / 2)"
    using assms by (simp add: gLatency_ThroughputMonitor flow_body_pair)
  have two: "gLatency (ThroughputMonitor [s1, s2] g) = Finite (((L0 + x) / 2 + y) / 2)"
    using assms by (simp add: gLatency_ThroughputMonitor flow_body_pair)
  have swp: "gLatency (ThroughputMonitor [s2, s1] g) = Finite (((L0 + y) / 2 + x) / 2)"
    using assms by (simp add: gLatency_ThroughputMonitor flow_body_pair)
  have "(((L0 + x) / 2 + y) / 2 = ((L0 + y) / 2 + x) / 2) = (x = y)"
    by (auto simp: field_simps)
  with one two swp show ?thesis
    by simp
qed

theorem latency_recurrence_witness:
  "0 < rxBytes flow_a \<and> 0 < rxPackets flow_a \<and> 0 < rxBytes flow_b \<and> 0 < rxPackets flow_b
   \<and> gLatency initial_globals = Finite 0
   \<and> flow_latency flow_a = Finite (2 / 1000) \<and> flow_latency flow_b = Finite (4 / 1000)
   \<and> gLatency (ThroughputMonitor [flow_a] initial_globals) = Finite (1 / 1000)
   \<and> gLatency (ThroughputMonitor [flow_a, flow_b] initial_globals) = Finite (25 / 10000)
   \<and> gLatency (ThroughputMonitor [flow_b, flow_a] initial_globals) = Finite (2 / 1000)
   \<and> gLatency (ThroughputMonitor [flow_a, flow_b] initial_globals)
       \<noteq> gLatency (ThroughputMonitor [flow_b, flow_a] initial_globals)"
proof -
  have a: "0 < rxBytes flow_a" "0 < rxPackets flow_a"
    by (simp_all add: flow_a_def)
  have b: "0 < rxBytes flow_b" "0 < rxPackets flow_b"
    by (simp_all add: flow_b_def)
  have l: "gLatency initial_globals = Finite 0"
    by (simp add: initial_globals_def)
  have x: "flow_latency flow_a = Finite (2 / 1000)"
    by (simp add: flow_latency_def flow_a_def GetSeconds_def of_u32_def)
  have y: "flow_latency flow_b = Finite (4 / 1000)"
    by (simp add: flow_latency_def flow_b_def GetSeconds_def of_u32_def)
  from latency_recurrence [OF a b l x y] a b l x y show ?thesis
    by simp
qed

text \<open>
  C5, as amended. The latency update \<open>(gLatency + delaySum / rxPackets) / 2\<close> is applied
  once, in the order of the table, for each record with \<open>rxBytes > 0\<close> and
  \<open>rxPackets > 0\<close>, and for no other record: a record with \<open>rxBytes = 0\<close> gets no update
  whatever its \<open>rxPackets\<close>.
\<close>

theorem latency_update_once_per_qualifying_flow:
  "gLatency (ThroughputMonitor stats g) =
     foldl (\<lambda>l s. ddiv (dadd l (flow_latency s)) (Finite 2)) (gLatency g)
       (filter (\<lambda>s. 0 < rxBytes s \<and> 0 < rxPackets s) stats)"
  by (simp add: gLatency_ThroughputMonitor snd_flow_loop_foldl)

text \<open>
  C5 as the specification states it fails: a record with three received packets and no
  received bytes leaves the latency at 0, where the update would give 5 ms.
\<close>

theorem no_latency_update_without_bytes:
  "0 < rxPackets silent_flow
   \<and> gLatency (ThroughputMonitor [silent_flow] initial_globals) = Finite 0
   \<and> ddiv (dadd (gLatency initial_globals) (flow_latency silent_flow)) (Finite 2)
       = Finite (5 / 1000)
   \<and> gLatency (ThroughputMonitor [silent_flow] initial_globals)
       \<noteq> ddiv (dadd (gLatency initial_globals) (flow_latency silent_flow)) (Finite 2)"
  by (simp add: ThroughputMonitor_def flow_body_def flow_latency_def
      of_u32_def GetSeconds_def silent_flow_def initial_globals_def)

text \<open>
  C8, as amended. When every record has \<open>rxBytes = 0\<close>, the monitor reports a throughput
  of 0 and leaves the latency as the previous call left it.
\<close>

theorem no_qualifying_flow:
  "\<forall>s\<in>set stats. \<not> 0 < rxBytes s \<Longrightarrow>
   gThroughput (ThroughputMonitor stats g) = Finite 0
   \<and> gLatency (ThroughputMonitor stats g) = gLatency g"
  by (simp add: ThroughputMonitor_def flow_loop_no_rx)

theorem no_qualifying_flow_witness:
  "rxBytes silent_flow = 0 \<and> rxBytes empty_flow = 0
   \<and> gThroughput (ThroughputMonitor [silent_flow, empty_flow]
        (initial_globals\<lparr>gThroughput := Finite 1200000, gLatency := Finite (2 / 1000)\<rparr>))
       = Finite 0
   \<and> gLatency (ThroughputMonitor [silent_flow, empty_flow]
        (initial_globals\<lparr>gThroughput := Finite 1200000, gLatency := Finite (2 / 1000)\<rparr>))
       = Finite (2 / 1000)"
proof -
  have z: "rxBytes silent_flow = 0" "rxBytes empty_flow = 0"
    by (simp_all add: silent_flow_def empty_flow_def)
  then have h: "\<forall>s\<in>set [silent_flow, empty_flow]. \<not> 0 < rxBytes s"
    by simp
  from no_qualifying_flow [OF h,
      of "initial_globals\<lparr>gThroughput := Finite 1200000, gLatency := Finite (2 / 1000)\<rparr>"] z
  show ?thesis
    by simp
qed

text \<open>
  C8 as the specification states it fails: a table may hold no record that qualifies in the
  sense of the specification (received bytes over a positive elapsed time for the
  throughput, received packets for the latency) and still not report 0. A record of 1500
  bytes with no elapsed time and no counted packet is selected by neither condition, the
  sum of the specification over it is 0, and the monitor reports plus infinity; only the
  latency is left as it was.
\<close>

theorem unqualified_flow_reports_infinity:
  "\<not> (0 < rxBytes frozen_flow \<and> 0 < elapsed frozen_flow)
   \<and> \<not> 0 < rxPackets frozen_flow
   \<and> filter (\<lambda>s. 0 < rxBytes s \<and> 0 < elapsed s) [frozen_flow] = []
   \<and> spec_throughput [frozen_flow] = 0
   \<and> gThroughput (ThroughputMonitor [frozen_flow] initial_globals) = PInf
   \<and> gThroughput (ThroughputMonitor [frozen_flow] initial_globals) \<noteq> Finite 0
   \<and> gLatency (ThroughputMonitor [frozen_flow] initial_globals) = gLatency initial_globals"
  by (simp add: ThroughputMonitor_def flow_body_def flow_throughput_def
      of_u64_def GetSeconds_def frozen_flow_def initial_globals_def
      spec_throughput_def elapsed_def)

text \<open>
  C9. The latency division is reached only with \<open>rxPackets > 0\<close>: a record with
  \<open>rxPackets = 0\<close> leaves the latency as it was, with \<open>rxPackets > 0\<close> the divisor is not
  zero and the quotient is the finite number \<open>delaySum / rxPackets\<close>, and so a finite
  latency stays finite over any flow table (a division by zero would leave an infinity or
  NaN).
\<close>

theorem latency_division_guarded:
  "(\<not> 0 < rxPackets s \<longrightarrow> snd (flow_body s (tot, lat)) = lat)
   \<and> (0 < rxPackets s \<longrightarrow>
        unat (rxPackets s) \<noteq> 0
        \<and> flow_latency s = Finite (delaySum s / real (unat (rxPackets s))))
   \<and> (is_finite (gLatency g) \<longrightarrow> is_finite (gLatency (ThroughputMonitor stats g)))"
  using unat_pos [of "rxPackets s"]
  by (simp add: snd_flow_body flow_latency_guarded gLatency_ThroughputMonitor
      snd_flow_loop_finite del: of_nat_unat)

theorem latency_division_guarded_witness:
  "\<not> 0 < rxPackets uncounted_flow
   \<and> snd (flow_body uncounted_flow (Finite 0, Finite (3 / 1000))) = Finite (3 / 1000)
   \<and> 0 < rxPackets flow_a
   \<and> unat (rxPackets flow_a) \<noteq> 0
   \<and> flow_latency flow_a = Finite (2 / 1000)
   \<and> is_finite (gLatency initial_globals)
   \<and> is_finite (gLatency (ThroughputMonitor [uncounted_flow, flow_a, empty_flow] initial_globals))"
proof -
  have u: "\<not> 0 < rxPackets uncounted_flow"
    by (simp add: uncounted_flow_def)
  have a: "0 < rxPackets flow_a"
    by (simp add: flow_a_def)
  have q: "delaySum flow_a / real (unat (rxPackets flow_a)) = 2 / 1000"
    by (simp add: flow_a_def)
  have f: "is_finite (gLatency initial_globals)"
    by (simp add: initial_globals_def)
  from latency_division_guarded [of uncounted_flow "Finite 0" "Finite (3 / 1000)"
      initial_globals "[uncounted_flow, flow_a, empty_flow]"] u f
  have 1: "snd (flow_body uncounted_flow (Finite 0, Finite (3 / 1000))) = Finite (3 / 1000)"
    "is_finite (gLatency (ThroughputMonitor [uncounted_flow, flow_a, empty_flow] initial_globals))"
    by simp_all
  from latency_division_guarded [of flow_a "Finite 0" "Finite 0" initial_globals "[]"] a q
  have 2: "unat (rxPackets flow_a) \<noteq> 0" "flow_latency flow_a = Finite (2 / 1000)"
    by simp_all
  from u a f 1 2 show ?thesis
    by simp
qed

section \<open>The claims about the fallback calculation\<close>

text \<open>
  C2. When the throughput is at most 0, the fallback sets the throughput to
  \<open>bandwidth * log2 (1 + 10 ^ ((10 + (txPower - 20) / 2) / 10)) * (0.8 if TDD else 0.95)
  * (4 if frequency < 6e9 else 8) * 0.85\<close> and the latency to
  \<open>0.001 + (0.0005 if TDD else 0) + (100e6 / bandwidth) * 0.0005\<close>, for a configuration of
  finite numbers with a bandwidth other than 0.
\<close>

theorem fallback_formulas:
  assumes "dle (gThroughput g) (Finite 0)"
    and "gBandwidth g = Finite bw" and "bw \<noteq> 0"
    and "gTxPower g = Finite p" and "gFrequency g = Finite f"
  shows "gThroughput (main_fallback g) =
           Finite (bw * log 2 (1 + 10 powr ((10 + (p - 20) / 2) / 10))
                   * (if gDuplexMode g = ''TDD'' then 0.8 else 0.95)
                   * (if f < 6000000000 then 4 else 8) * 0.85)
       \<and> gLatency (main_fallback g) =
           Finite (0.001 + (if gDuplexMode g = ''TDD'' then 0.0005 else 0)
                   + (100000000 / bw) * 0.0005)"
proof -
  have se: "log2 (dadd (Finite 1) (pow10 (ddiv (dadd (Finite 10)
              (ddiv (dsub (Finite p) (Finite 20)) (Finite 2))) (Finite 10))))
     = Finite (log 2 (1 + 10 powr ((10 + (p - 20) / 2) / 10)))"
    unfolding snr_finite spectral_efficiency_finite ..
  have thr: "gThroughput (main_fallback g) =
           Finite (bw * log 2 (1 + 10 powr ((10 + (p - 20) / 2) / 10))
                   * (if gDuplexMode g = ''TDD'' then 0.8 else 0.95)
                   * (if f < 6000000000 then 4 else 8) * 0.85)"
    using assms
    by (simp add: main_fallback_def Let_def se del: ddiv.simps dadd.simps dsub.simps)
  have lat: "gLatency (main_fallback g) =
           Finite (0.001 + (if gDuplexMode g = ''TDD'' then 0.0005 else 0)
                   + (100000000 / bw) * 0.0005)"
    using assms by (simp add: main_fallback_def Let_def)
  from thr lat show ?thesis ..
qed

text \<open>
  The example of the specification is the program's default configuration: the throughput is
  \<open>20e6 * log2 11 * 0.8 * 4 * 0.85\<close>, between 188.1e6 and 188.2e6, and the latency is 0.004.
\<close>

theorem fallback_formulas_witness:
  "dle (gThroughput initial_globals) (Finite 0)
   \<and> gThroughput (main_fallback initial_globals)
       = Finite (20000000 * log 2 11 * 0.8 * 4 * 0.85)
   \<and> 188100000 < 20000000 * log 2 11 * 0.8 * 4 * 0.85
   \<and> 20000000 * log 2 11 * 0.8 * 4 * 0.85 < (188200000::real)
   \<and> gLatency (main_fallback initial_globals) = Finite 0.004"
proof -
  have trig: "dle (gThroughput initial_globals) (Finite 0)"
    by (simp add: initial_globals_def)
  have bw: "gBandwidth initial_globals = Finite 20000000"
    and p: "gTxPower initial_globals = Finite 20"
    and f: "gFrequency initial_globals = Finite 3500000000"
    and d: "gDuplexMode initial_globals = ''TDD''"
    by (simp_all add: initial_globals_def)
  have nz: "(20000000::real) \<noteq> 0"
    by simp
  have ten: "(1::real) + 10 powr ((10 + (20 - 20) / 2) / 10) = 11"
    by simp
  from fallback_formulas [OF trig bw nz p f]
  have "gThroughput (main_fallback initial_globals)
          = Finite (20000000 * log 2 11 * 0.8 * 4 * 0.85)"
    and "gLatency (main_fallback initial_globals) = Finite 0.004"
    unfolding ten d by simp_all
  moreover have "188100000 < 20000000 * log 2 11 * 0.8 * 4 * 0.85"
    "20000000 * log 2 11 * 0.8 * 4 * 0.85 < (188200000::real)"
    using log2_11_bounds by simp_all
  ultimately show ?thesis
    using trig by simp
qed

text \<open>
  C6. Whenever the throughput is greater than zero, the fallback calculation returns the
  metrics (and every other global) exactly as they were.
\<close>

theorem fallback_unchanged_when_positive:
  "dgt (gThroughput g) (Finite 0) \<Longrightarrow> main_fallback g = g"
  by (cases "gThroughput g") (simp_all add: main_fallback_def dgt_def)

theorem fallback_unchanged_when_positive_witness:
  "dgt (gThroughput
          (initial_globals\<lparr>gThroughput := Finite 1200000, gLatency := Finite (1 / 100)\<rparr>))
       (Finite 0)
   \<and> main_fallback (initial_globals\<lparr>gThroughput := Finite 1200000, gLatency := Finite (1 / 100)\<rparr>)
       = initial_globals\<lparr>gThroughput := Finite 1200000, gLatency := Finite (1 / 100)\<rparr>"
proof -
  have pos: "dgt (gThroughput
      (initial_globals\<lparr>gThroughput := Finite 1200000, gLatency := Finite (1 / 100)\<rparr>))
      (Finite 0)"
    by (simp add: dgt_def)
  from fallback_unchanged_when_positive [OF pos] pos show ?thesis
    by simp
qed

text \<open>
  C7. The fallback calculation is idempotent: applied to its own output, it returns that
  output. With a positive bandwidth and a finite transmit power the first result has a
  positive throughput, so that the second application does not recompute.
\<close>

theorem fallback_idempotent:
  "main_fallback (main_fallback g) = main_fallback g
   \<and> (dle (gThroughput g) (Finite 0) \<and> dgt (gBandwidth g) (Finite 0)
        \<and> is_finite (gTxPower g) \<longrightarrow>
      dgt (gThroughput (main_fallback g)) (Finite 0))"
proof
  show "main_fallback (main_fallback g) = main_fallback g"
    by (simp add: main_fallback_def Let_def)
next
  show "dle (gThroughput g) (Finite 0) \<and> dgt (gBandwidth g) (Finite 0)
        \<and> is_finite (gTxPower g) \<longrightarrow>
      dgt (gThroughput (main_fallback g)) (Finite 0)"
  proof
    assume h: "dle (gThroughput g) (Finite 0) \<and> dgt (gBandwidth g) (Finite 0)
        \<and> is_finite (gTxPower g)"
    then obtain p where "gTxPower g = Finite p"
      by (cases "gTxPower g") simp_all
    with h show "dgt (gThroughput (main_fallback g)) (Finite 0)"
      by (simp add: fallback_throughput_positive)
  qed
qed

theorem fallback_idempotent_witness:
  "dle (gThroughput mmwave_globals) (Finite 0)
   \<and> dgt (gBandwidth mmwave_globals) (Finite 0)
   \<and> is_finite (gTxPower mmwave_globals)
   \<and> dgt (gThroughput (main_fallback mmwave_globals)) (Finite 0)
   \<and> main_fallback (main_fallback mmwave_globals) = main_fallback mmwave_globals"
proof -
  have h: "dle (gThroughput mmwave_globals) (Finite 0)"
    "dgt (gBandwidth mmwave_globals) (Finite 0)"
    "is_finite (gTxPower mmwave_globals)"
    by (simp_all add: mmwave_globals_def initial_globals_def dgt_def)
  from fallback_idempotent [of mmwave_globals] h show ?thesis
    by simp
qed

text \<open>
  C10. The fallback latency depends on the duplex mode and the bandwidth only: two
  configurations that agree on both get the same latency from the fallback, whatever their
  frequencies and transmit powers.
\<close>

theorem fallback_latency_depends_on_duplex_and_bandwidth:
  "(gDuplexMode g1 = ''TDD'') = (gDuplexMode g2 = ''TDD'') \<Longrightarrow>
   gBandwidth g1 = gBandwidth g2 \<Longrightarrow>
   dle (gThroughput g1) (Finite 0) \<Longrightarrow> dle (gThroughput g2) (Finite 0) \<Longrightarrow>
   gLatency (main_fallback g1) = gLatency (main_fallback g2)"
  by (simp add: main_fallback_def Let_def)

theorem fallback_latency_depends_on_duplex_and_bandwidth_witness:
  "gDuplexMode mmwave_globals = gDuplexMode (mmwave_globals\<lparr>gFrequency := Finite 3500000000, gTxPower := Finite 10\<rparr>)
   \<and> gBandwidth mmwave_globals = gBandwidth (mmwave_globals\<lparr>gFrequency := Finite 3500000000, gTxPower := Finite 10\<rparr>)
   \<and> gFrequency mmwave_globals \<noteq> gFrequency (mmwave_globals\<lparr>gFrequency := Finite 3500000000, gTxPower := Finite 10\<rparr>)
   \<and> gTxPower mmwave_globals \<noteq> gTxPower (mmwave_globals\<lparr>gFrequency := Finite 3500000000, gTxPower := Finite 10\<rparr>)
   \<and> dle (gThroughput mmwave_globals) (Finite 0)
   \<and> gLatency (main_fallback mmwave_globals) = Finite (35 / 10000)
   \<and> gLatency (main_fallback (mmwave_globals\<lparr>gFrequency := Finite 3500000000, gTxPower := Finite 10\<rparr>))
       = Finite (35 / 10000)"
proof -
  let ?g2 = "mmwave_globals\<lparr>gFrequency := Finite 3500000000, gTxPower := Finite 10\<rparr>"
  have d: "(gDuplexMode mmwave_globals = ''TDD'') = (gDuplexMode ?g2 = ''TDD'')"
    and b: "gBandwidth mmwave_globals = gBandwidth ?g2"
    and t1: "dle (gThroughput mmwave_globals) (Finite 0)"
    and t2: "dle (gThroughput ?g2) (Finite 0)"
    by (simp_all add: mmwave_globals_def initial_globals_def)
  have v: "gLatency (main_fallback mmwave_globals) = Finite (35 / 10000)"
    by (simp add: main_fallback_def Let_def mmwave_globals_def initial_globals_def)
  have ne: "gFrequency mmwave_globals \<noteq> gFrequency ?g2" "gTxPower mmwave_globals \<noteq> gTxPower ?g2"
    by (simp_all add: mmwave_globals_def initial_globals_def)
  from fallback_latency_depends_on_duplex_and_bandwidth [OF d b t1 t2] v ne t1 show ?thesis
    by simp
qed

end
